theory Spec2Isabelle
  imports Complex_Main "HOL-Library.Multiset" "HOL-Library.Sublist"
begin

section \<open>Data model of src/src/App.jsx\<close>

text \<open>
  Numbers. The prices, stocks, minimum order quantities and cart quantities of the
  program are JavaScript numbers (IEEE 754 doubles) that hold finite integers: the
  mock catalog has integer values, and the number inputs of the farmer form have the
  default step 1. They are modelled as \<open>int\<close>; NaN and the infinities are not values
  of the model. Every integer of magnitude up to \<open>2^53\<close> is a double; above, the
  doubles are the multiples of a power of two that have 53 significant bits, and the
  sum or product of two doubles is the double nearest to the exact result, the one
  with the even significand when two are equally near. Ratings (4.8, 4.6, ...) are
  modelled as \<open>rat\<close>; only their order and the sign of their difference is used.

  Strings are lists of 8-bit characters, read as the code units U+0000 .. U+00FF.
\<close>

text \<open>The number of binary digits of a positive integer (0 for the others).\<close>

definition bit_length_measure :: "(int \<times> int) set" where
  "bit_length_measure = measure nat"

function bit_length :: "int \<Rightarrow> nat" where
  "bit_length n = (if n \<le> 0 then 0 else Suc (bit_length (n div 2)))"
  by pat_completeness auto
termination
  by (relation bit_length_measure) (auto simp: bit_length_measure_def)

declare bit_length.simps [simp del]

text \<open>
  The double nearest to an integer (round to nearest, ties to even). Up to \<open>2^53\<close>
  the integer is a double itself. Above, with \<open>k\<close> the number of binary digits of
  the magnitude, the doubles around it are \<open>u = 2^(k - 53)\<close> apart: the magnitude is
  \<open>q * u + r\<close>, and it goes up to \<open>(q + 1) * u\<close> when \<open>r\<close> is more than half of \<open>u\<close>,
  or is half of \<open>u\<close> and \<open>q\<close> is odd. (A magnitude that rounds to \<open>2^1024\<close> or more
  is Infinity in the code; this is beyond the model.)
\<close>

definition js_round :: "int \<Rightarrow> int" where
  "js_round x =
     (if \<bar>x\<bar> \<le> 2 ^ 53 then x
      else (let u = 2 ^ (bit_length \<bar>x\<bar> - 53);
                q = \<bar>x\<bar> div u;
                r = \<bar>x\<bar> mod u;
                q' = (if u < 2 * r \<or> (u = 2 * r \<and> odd q) then q + 1 else q)
            in sgn x * (q' * u)))"

text \<open>\<open>a + b\<close> and \<open>a * b\<close> on numbers.\<close>

definition js_add :: "int \<Rightarrow> int \<Rightarrow> int" where
  "js_add a b = js_round (a + b)"

definition js_mul :: "int \<Rightarrow> int \<Rightarrow> int" where
  "js_mul a b = js_round (a * b)"

record bulk_tier =
  tier_min :: int
  tier_priceINR :: int

text \<open>
  A product object: the fields \<open>id, name, priceINR, stock, moq, category, image,
  farmerId, rating, bulkTiers\<close>. The field \<open>id\<close> is called \<open>ident\<close> here
  (\<open>id\<close> is the identity function of HOL), \<open>min\<close> of a tier is \<open>tier_min\<close>.
\<close>

record product =
  ident :: string
  name :: string
  priceINR :: int
  stock :: int
  moq :: int
  category :: string
  image :: string
  farmerId :: string
  rating :: rat
  bulkTiers :: "bulk_tier list"

text \<open>A cart line is \<open>{ ...p, qty }\<close>: every field of the product, and \<open>qty\<close>.\<close>

record cart_line = product +
  qty :: int

text \<open>The argument of \<open>submitRFQ\<close>, built by \<open>RFQModal\<close>, and the stored request.\<close>

record rfq_data =
  rfq_productId :: string
  rfq_qty :: int
  rfq_location :: string
  rfq_target :: string
  rfq_notes :: string

record rfq = rfq_data +
  rfq_id :: string
  date :: string

text \<open>The state of \<open>App\<close> (its \<open>useState\<close> cells that the handlers below touch).\<close>

record app_state =
  products :: "product list"
  cartOpen :: bool
  cart :: "cart_line list"
  activeTab :: string
  currency :: string
  rfqs :: "rfq list"

text \<open>What a handler shows through \<open>alert\<close>.\<close>

datatype alert =
  CheckoutSuccessful int string
| RFQSubmitted

subsection \<open>Mock data\<close>

definition initialProducts :: "product list" where
  "initialProducts = [
     \<lparr>ident = ''p1'', name = ''Alphonso Mangoes (1kg)'', priceINR = 299, stock = 4200,
      moq = 50, category = ''Fruits'',
      image = ''https://images.unsplash.com/photo-1550258987-190a2d41a8ba?q=80&w=1200&auto=format&fit=crop'',
      farmerId = ''f1'', rating = 48 / 10,
      bulkTiers = [\<lparr>tier_min = 50, tier_priceINR = 285\<rparr>,
                   \<lparr>tier_min = 200, tier_priceINR = 270\<rparr>,
                   \<lparr>tier_min = 1000, tier_priceINR = 255\<rparr>]\<rparr>,
     \<lparr>ident = ''p2'', name = ''Organic Tomatoes (1kg)'', priceINR = 89, stock = 9000,
      moq = 100, category = ''Vegetables'',
      image = ''https://images.unsplash.com/photo-1546470427-0fd2772bca1c?q=80&w=1200&auto=format&fit=crop'',
      farmerId = ''f3'', rating = 46 / 10,
      bulkTiers = [\<lparr>tier_min = 100, tier_priceINR = 84\<rparr>,
                   \<lparr>tier_min = 500, tier_priceINR = 80\<rparr>,
                   \<lparr>tier_min = 2500, tier_priceINR = 76\<rparr>]\<rparr>,
     \<lparr>ident = ''p3'', name = ''Fresh Cow Milk (1L)'', priceINR = 75, stock = 12000,
      moq = 200, category = ''Dairy'',
      image = ''https://images.unsplash.com/photo-1550581190-9c1c48d21d6c?q=80&w=1200&auto=format&fit=crop'',
      farmerId = ''f2'', rating = 44 / 10,
      bulkTiers = [\<lparr>tier_min = 200, tier_priceINR = 72\<rparr>,
                   \<lparr>tier_min = 1000, tier_priceINR = 69\<rparr>,
                   \<lparr>tier_min = 5000, tier_priceINR = 66\<rparr>]\<rparr>,
     \<lparr>ident = ''p4'', name = ''Basmati Rice (5kg)'', priceINR = 649, stock = 3000,
      moq = 20, category = ''Grains'',
      image = ''https://images.unsplash.com/photo-1607623814075-e51df1bdc82f?q=80&w=1200&auto=format&fit=crop'',
      farmerId = ''f3'', rating = 47 / 10,
      bulkTiers = [\<lparr>tier_min = 20, tier_priceINR = 630\<rparr>,
                   \<lparr>tier_min = 200, tier_priceINR = 610\<rparr>,
                   \<lparr>tier_min = 1000, tier_priceINR = 595\<rparr>]\<rparr>,
     \<lparr>ident = ''p5'', name = ''Free-range Eggs (12)'', priceINR = 145, stock = 6000,
      moq = 50, category = ''Dairy'',
      image = ''https://images.unsplash.com/photo-1517959105821-eaf2591984dd?q=80&w=1200&auto=format&fit=crop'',
      farmerId = ''f2'', rating = 45 / 10,
      bulkTiers = [\<lparr>tier_min = 50, tier_priceINR = 140\<rparr>,
                   \<lparr>tier_min = 500, tier_priceINR = 135\<rparr>,
                   \<lparr>tier_min = 3000, tier_priceINR = 128\<rparr>]\<rparr>]"

text \<open>
  The name of \<open>p5\<close> has the hyphen U+2011 in the source, outside the 8-bit
  characters; it is written \<open>-\<close> above. So a query with \<open>-\<close> in it finds \<open>p5\<close> here
  and not in the code. The statements below that read this name look in it for
  letters and spaces only.
\<close>

definition tomatoes :: product where
  "tomatoes = initialProducts ! 1"

section \<open>Cart handlers\<close>

text \<open>\<open>a || d\<close> on numbers: \<open>d\<close> when \<open>a\<close> is 0 (the falsy integer), else \<open>a\<close>.\<close>

definition num_or :: "int \<Rightarrow> int \<Rightarrow> int" where
  "num_or a d = (if a = 0 then d else a)"

text \<open>
  \<open>items.reduce((s, it) => s + it.priceINR * it.qty, 0)\<close>, written in
  \<open>CartDrawer\<close> and again in \<open>checkout\<close>.
\<close>

definition totalINR :: "cart_line list \<Rightarrow> int" where
  "totalINR items = foldl (\<lambda>s it. js_add s (js_mul (priceINR it) (qty it))) 0 items"

text \<open>The updater that \<open>addToCart\<close> hands to \<open>setCart\<close>.\<close>

definition addToCart_update :: "product \<Rightarrow> cart_line list \<Rightarrow> cart_line list" where
  "addToCart_update p prev =
     (case find (\<lambda>x. ident x = ident p) prev of
        Some existing \<Rightarrow>
          map (\<lambda>x. if ident x = ident p then x\<lparr>qty := js_add (qty x) 1\<rparr> else x) prev
      | None \<Rightarrow> prev @ [product.extend p (cart_line.fields (max 1 (num_or (moq p) 1)))])"

definition addToCart :: "product \<Rightarrow> app_state \<Rightarrow> app_state" where
  "addToCart p st = st\<lparr>cart := addToCart_update p (cart st), cartOpen := True\<rparr>"

definition setQty_update :: "string \<Rightarrow> int \<Rightarrow> cart_line list \<Rightarrow> cart_line list" where
  "setQty_update i n prev = map (\<lambda>x. if ident x = i then x\<lparr>qty := n\<rparr> else x) prev"

definition setQty :: "string \<Rightarrow> int \<Rightarrow> app_state \<Rightarrow> app_state" where
  "setQty i n st = st\<lparr>cart := setQty_update i n (cart st)\<rparr>"

definition removeItem :: "string \<Rightarrow> app_state \<Rightarrow> app_state" where
  "removeItem i st = st\<lparr>cart := filter (\<lambda>x. ident x \<noteq> i) (cart st)\<rparr>"

text \<open>
  \<open>checkout\<close>: the total of the current cart, the alert (the amount is the argument
  of \<open>toCurrency\<close>, beside the currency it is formatted in), then \<open>setCart([])\<close> and
  \<open>setCartOpen(false)\<close>. It has no branch and no early return.
\<close>

definition checkout :: "app_state \<Rightarrow> alert \<times> app_state" where
  "checkout st =
     (let total = totalINR (cart st)
      in (CheckoutSuccessful total (currency st), st\<lparr>cart := [], cartOpen := False\<rparr>))"

section \<open>Listing pipeline: the \<open>filtered\<close> memo of \<open>App\<close>\<close>

subsection \<open>String operations\<close>

text \<open>
  \<open>String.prototype.toLowerCase\<close> on the code units below 256: the letters A-Z
  (65-90) and the capital letters U+00C0-U+00DE except the sign U+00D7 move up by 32;
  every other code unit stays.
\<close>

definition lower_char :: "char \<Rightarrow> char" where
  "lower_char c =
     (let n = (of_char c :: nat)
      in if (65 \<le> n \<and> n \<le> 90) \<or> (192 \<le> n \<and> n \<le> 214) \<or> (216 \<le> n \<and> n \<le> 222)
         then char_of (n + 32) else c)"

definition toLowerCase :: "string \<Rightarrow> string" where
  "toLowerCase s = map lower_char s"

text \<open>
  \<open>String.prototype.trim\<close> strips white space and line terminators from both ends;
  below 256 these are TAB, LF, VT, FF, CR, SPACE and U+00A0. A string is truthy when it
  is not empty.
\<close>

definition is_space :: "char \<Rightarrow> bool" where
  "is_space c = ((of_char c :: nat) \<in> {9, 10, 11, 12, 13, 32, 160})"

definition trim :: "string \<Rightarrow> string" where
  "trim s = rev (dropWhile is_space (rev (dropWhile is_space s)))"

text \<open>\<open>s.includes(t)\<close>: \<open>t\<close> occurs in \<open>s\<close> as a run of consecutive code units.\<close>

fun str_includes :: "string \<Rightarrow> string \<Rightarrow> bool" where
  "str_includes [] t = (t = [])"
| "str_includes (c # s) t = (prefix t (c # s) \<or> str_includes s t)"

subsection \<open>Sorting\<close>

text \<open>
  \<open>Array.prototype.sort(cmp)\<close> is stable, and for a comparator that is consistent (as
  a difference of numeric keys is) the sorted array is determined: the stable
  arrangement in which \<open>cmp\<close> of an earlier and a later element is never positive.
  It is modelled by insertion from the right, which computes that arrangement.
\<close>

fun insert_cmp :: "('a \<Rightarrow> 'a \<Rightarrow> rat) \<Rightarrow> 'a \<Rightarrow> 'a list \<Rightarrow> 'a list" where
  "insert_cmp cmp x [] = [x]"
| "insert_cmp cmp x (y # ys) =
     (if cmp x y \<le> 0 then x # y # ys else y # insert_cmp cmp x ys)"

definition array_sort :: "('a \<Rightarrow> 'a \<Rightarrow> rat) \<Rightarrow> 'a list \<Rightarrow> 'a list" where
  "array_sort cmp xs = foldr (insert_cmp cmp) xs []"

subsection \<open>The derived listing\<close>

text \<open>
  The \<open>switch (sort)\<close> statement, as a function of the array held by \<open>arr\<close>. It
  falls to \<open>default\<close> (no sorting) for every sort key other than the three it names.
\<close>

definition sort_switch :: "string \<Rightarrow> product list \<Rightarrow> product list" where
  "sort_switch sortKey arr =
     (if sortKey = ''priceAsc''
        then array_sort (\<lambda>a b. of_int (priceINR a) - of_int (priceINR b)) arr
      else if sortKey = ''priceDesc''
        then array_sort (\<lambda>a b. of_int (priceINR b) - of_int (priceINR a)) arr
      else if sortKey = ''ratingDesc''
        then array_sort (\<lambda>a b. rating b - rating a) arr
      else arr)"

text \<open>
  The value that the body of the \<open>useMemo\<close> returns, as a function of \<open>products\<close>,
  \<open>q\<close>, \<open>category\<close> and \<open>sort\<close>.
\<close>

definition filtered :: "product list \<Rightarrow> string \<Rightarrow> string \<Rightarrow> string \<Rightarrow> product list" where
  "filtered prods q categ sortKey =
     (let arr = prods;
          arr = (if trim q \<noteq> []
                 then (let t = toLowerCase q
                       in filter (\<lambda>p. str_includes (toLowerCase (name p)) t) arr)
                 else arr);
          arr = (if categ \<noteq> ''All'' then filter (\<lambda>p. category p = categ) arr else arr);
          arr = sort_switch sortKey arr
      in arr)"







section \<open>Farmer form and catalog\<close>

text \<open>
  The form state of \<open>FarmerForm\<close>. A numeric field holds what \<open>Number(field)\<close> yields
  on the text typed: \<open>None\<close> for NaN, else the integer.
\<close>

record form =
  form_name :: string
  form_priceINR :: "int option"
  form_stock :: "int option"
  form_moq :: "int option"
  form_category :: string
  form_image :: string
  form_farmerId :: string

text \<open>\<open>Number(x) || d\<close>: NaN and 0 are falsy.\<close>

definition number_or :: "int option \<Rightarrow> int \<Rightarrow> int" where
  "number_or v d = (case v of None \<Rightarrow> d | Some n \<Rightarrow> if n = 0 then d else n)"

text \<open>\<open>s || d\<close> on strings: the empty string is falsy.\<close>

definition string_or :: "string \<Rightarrow> string \<Rightarrow> string" where
  "string_or s d = (if s = [] then d else s)"

text \<open>\<open>s.slice(2)\<close>.\<close>

definition slice2 :: "string \<Rightarrow> string" where
  "slice2 s = drop 2 s"

text \<open>
  The product that \<open>handleSubmit\<close> hands to \<open>onSave\<close>. \<open>rnd\<close> is the string
  \<open>Math.random().toString(36)\<close>, an input from the environment.
  \<open>Math.floor(x * 0.95)\<close> is written as the integer division of \<open>95 * x\<close> by 100,
  the exact value. The code's double product floors to that value for prices up to
  \<open>10^15\<close>; from about \<open>1.19 * 10^15\<close> it can round up to the next integer, and the
  code's tier price is then one above the value here.
\<close>

definition handleSubmit :: "string \<Rightarrow> form \<Rightarrow> product" where
  "handleSubmit rnd f =
     \<lparr>ident = slice2 rnd,
      name = string_or (form_name f) ''New Product'',
      priceINR = number_or (form_priceINR f) 0,
      stock = number_or (form_stock f) 0,
      moq = number_or (form_moq f) 1,
      category = form_category f,
      image = string_or (form_image f)
        ''https://images.unsplash.com/photo-1542838132-92c53300491e?q=80&w=1200&auto=format&fit=crop'',
      farmerId = form_farmerId f,
      rating = 46 / 10,
      bulkTiers = [\<lparr>tier_min = number_or (form_moq f) 1,
                    tier_priceINR = max 1 ((number_or (form_priceINR f) 1 * 95) div 100)\<rparr>]\<rparr>"

definition saveProduct :: "product \<Rightarrow> app_state \<Rightarrow> app_state" where
  "saveProduct newP st = st\<lparr>products := newP # products st, activeTab := ''Shop''\<rparr>"

text \<open>The state \<open>App\<close> starts in.\<close>

definition initial_state :: app_state where
  "initial_state =
     \<lparr>products = initialProducts, cartOpen = False, cart = [], activeTab = ''Shop'',
      currency = ''INR'', rfqs = []\<rparr>"

text \<open>
  Submitting the farmer form several times, first submission first: each is a draw
  of \<open>Math.random\<close> and a form state.
\<close>

fun submit_forms :: "(string \<times> form) list \<Rightarrow> app_state \<Rightarrow> app_state" where
  "submit_forms [] st = st"
| "submit_forms ((rnd, f) # rest) st = submit_forms rest (saveProduct (handleSubmit rnd f) st)"

text \<open>
  The tier-schedule invariant of the data model: thresholds ascending, every tier
  price at most the base price, and every tier price at most the price of the tier
  before it.
\<close>

definition tier_schedule_ok :: "product \<Rightarrow> bool" where
  "tier_schedule_ok p =
     (sorted (map tier_min (bulkTiers p))
      \<and> list_all (\<lambda>t. tier_priceINR t \<le> priceINR p) (bulkTiers p)
      \<and> successively (\<lambda>a b. tier_priceINR b \<le> tier_priceINR a) (bulkTiers p))"

section \<open>RFQ handler\<close>

text \<open>
  \<open>submitRFQ\<close>: \<open>rnd\<close> is the string \<open>Math.random().toString(36)\<close> and \<open>now\<close> the
  string \<open>new Date().toISOString()\<close>, both inputs from the environment. The request
  is \<open>{ id, date, ...data }\<close>, put at the head of the list.
\<close>

definition submitRFQ :: "string \<Rightarrow> string \<Rightarrow> rfq_data \<Rightarrow> app_state \<Rightarrow> alert \<times> app_state" where
  "submitRFQ rnd now data st =
     (let r = rfq_data.extend data (rfq.fields (slice2 rnd) now)
      in (RFQSubmitted, st\<lparr>rfqs := r # rfqs st\<rparr>))"

text \<open>Several submissions in a row, first submission first.\<close>

fun submit_rfqs :: "(string \<times> string \<times> rfq_data) list \<Rightarrow> app_state \<Rightarrow> app_state" where
  "submit_rfqs [] st = st"
| "submit_rfqs ((rnd, now, data) # rest) st = submit_rfqs rest (snd (submitRFQ rnd now data st))"

section \<open>Pricing engine\<close>

text \<open>
  Modelled from the spec: \<open>unitPriceFor(product, quantity)\<close>. The source file has no
  function that picks a bulk tier for a quantity (the tiers are only rendered, by
  \<open>BulkBadges\<close>), so the function is written from the spec's words: it scans the
  product's tier list, keeps the tier with the greatest threshold not above the
  quantity, and returns that tier's unit price, or the base price when no tier
  qualifies.
\<close>

fun scan_tiers :: "int \<Rightarrow> bulk_tier option \<Rightarrow> bulk_tier list \<Rightarrow> bulk_tier option" where
  "scan_tiers quantity best [] = best"
| "scan_tiers quantity best (t # ts) =
     scan_tiers quantity
       (if tier_min t \<le> quantity
           \<and> (case best of None \<Rightarrow> True | Some b \<Rightarrow> tier_min b < tier_min t)
        then Some t else best) ts"

definition unitPriceFor :: "product \<Rightarrow> int \<Rightarrow> int" where
  "unitPriceFor p quantity =
     (case scan_tiers quantity None (bulkTiers p) of
        None \<Rightarrow> priceINR p
      | Some t \<Rightarrow> tier_priceINR t)"

section \<open>Properties of the cart\<close>

lemma js_round_exact: "\<bar>x\<bar> \<le> 2 ^ 53 \<Longrightarrow> js_round x = x"
  by (simp add: js_round_def)

lemma abs_sum_nonneg: "0 \<le> (\<Sum>it\<leftarrow>items. \<bar>priceINR it * qty it\<bar>)"
  by (rule sum_list_nonneg) auto

lemma foldl_total_exact:
  "\<bar>a\<bar> + (\<Sum>it\<leftarrow>items. \<bar>priceINR it * qty it\<bar>) \<le> 2 ^ 53 \<Longrightarrow>
   foldl (\<lambda>s it. js_add s (js_mul (priceINR it) (qty it))) a items
     = a + (\<Sum>it\<leftarrow>items. priceINR it * qty it)"
proof (induction items arbitrary: a)
  case Nil
  then show ?case by simp
next
  case (Cons it items)
  have rest: "0 \<le> (\<Sum>it\<leftarrow>items. \<bar>priceINR it * qty it\<bar>)"
    by (rule abs_sum_nonneg)
  from Cons.prems have b: "\<bar>a\<bar> + \<bar>priceINR it * qty it\<bar>
      + (\<Sum>it\<leftarrow>items. \<bar>priceINR it * qty it\<bar>) \<le> 2 ^ 53"
    by simp
  from b rest have "\<bar>priceINR it * qty it\<bar> \<le> 2 ^ 53" by linarith
  then have mul: "js_mul (priceINR it) (qty it) = priceINR it * qty it"
    by (simp add: js_mul_def js_round_exact)
  from b rest have "\<bar>a + priceINR it * qty it\<bar> \<le> 2 ^ 53" by linarith
  then have add: "js_add a (priceINR it * qty it) = a + priceINR it * qty it"
    by (simp add: js_add_def js_round_exact)
  from b have "\<bar>a + priceINR it * qty it\<bar>
      + (\<Sum>it\<leftarrow>items. \<bar>priceINR it * qty it\<bar>) \<le> 2 ^ 53"
    by linarith
  from Cons.IH [OF this] show ?case
    by (simp add: mul add)
qed

lemma totalINR_sum:
  "(\<Sum>it\<leftarrow>items. \<bar>priceINR it * qty it\<bar>) \<le> 2 ^ 53 \<Longrightarrow>
   totalINR items = (\<Sum>it\<leftarrow>items. priceINR it * qty it)"
  unfolding totalINR_def using foldl_total_exact [of 0 items] by simp

lemma totalINR_tiers:
  "totalINR (map (\<lambda>it. it\<lparr>bulkTiers := ts it\<rparr>) items) = totalINR items"
  by (simp add: totalINR_def foldl_map)

lemma max_num_or: "max 1 (num_or m 1) = max 1 m"
  by (simp add: num_or_def)

lemma find_absent: "\<forall>x\<in>set prev. ident x \<noteq> i \<Longrightarrow> find (\<lambda>x. ident x = i) prev = None"
  by (induction prev) auto

lemma filter_absent: "\<forall>x\<in>set prev. ident x \<noteq> i \<Longrightarrow> filter (\<lambda>x. ident x = i) prev = []"
  by (induction prev) auto

lemma add_new:
  "\<forall>x\<in>set prev. ident x \<noteq> ident p \<Longrightarrow>
   addToCart_update p prev = prev @ [product.extend p (cart_line.fields (max 1 (moq p)))]"
  by (simp add: addToCart_update_def find_absent max_num_or)

lemma add_again:
  assumes "\<forall>x\<in>set prev. ident x \<noteq> ident p"
  shows "addToCart_update p (addToCart_update p prev)
     = prev @ [product.extend p (cart_line.fields (js_add (max 1 (moq p)) 1))]"
proof -
  define l where "l = product.extend p (cart_line.fields (max 1 (moq p)))"
  have id_l: "ident l = ident p" by (simp add: l_def product.defs)
  have first: "addToCart_update p prev = prev @ [l]"
    unfolding l_def by (rule add_new [OF assms])
  have "find (\<lambda>x. ident x = ident p) (prev @ [l]) \<noteq> None"
    using id_l by (auto simp: find_None_iff)
  then obtain e where e: "find (\<lambda>x. ident x = ident p) (prev @ [l]) = Some e" by blast
  have keep: "map (\<lambda>x. if ident x = ident p then x\<lparr>qty := js_add (qty x) 1\<rparr> else x) prev = prev"
    using assms by (induction prev) auto
  have bump: "l\<lparr>qty := js_add (qty l) 1\<rparr>
                = product.extend p (cart_line.fields (js_add (max 1 (moq p)) 1))"
    by (simp add: l_def product.defs cart_line.defs)
  have "addToCart_update p (prev @ [l])
          = map (\<lambda>x. if ident x = ident p then x\<lparr>qty := js_add (qty x) 1\<rparr> else x) (prev @ [l])"
    unfolding addToCart_update_def e by simp
  also have "\<dots> = prev @ [l\<lparr>qty := js_add (qty l) 1\<rparr>]"
    using keep id_l by simp
  finally show ?thesis
    unfolding first bump .
qed

lemma js_add_one_exact: "m < 2 ^ 53 \<Longrightarrow> js_add (max 1 m) 1 = max 1 m + 1"
  by (simp add: js_add_def js_round_exact)

lemma tomatoes_eq:
  "tomatoes = \<lparr>ident = ''p2'', name = ''Organic Tomatoes (1kg)'', priceINR = 89, stock = 9000,
      moq = 100, category = ''Vegetables'',
      image = ''https://images.unsplash.com/photo-1546470427-0fd2772bca1c?q=80&w=1200&auto=format&fit=crop'',
      farmerId = ''f3'', rating = 46 / 10,
      bulkTiers = [\<lparr>tier_min = 100, tier_priceINR = 84\<rparr>,
                   \<lparr>tier_min = 500, tier_priceINR = 80\<rparr>,
                   \<lparr>tier_min = 2500, tier_priceINR = 76\<rparr>]\<rparr>"
  by (simp add: tomatoes_def initialProducts_def)

lemma tomatoes_fields:
  "ident tomatoes = ''p2''" "priceINR tomatoes = 89" "moq tomatoes = 100"
  by (simp_all add: tomatoes_eq)

lemma cart_add_tomatoes:
  "cart (addToCart tomatoes initial_state) = [product.extend tomatoes (cart_line.fields 100)]"
  by (simp add: addToCart_def addToCart_update_def initial_state_def num_or_def tomatoes_eq)

lemma cart_add_tomatoes_twice:
  "cart (addToCart tomatoes (addToCart tomatoes initial_state))
     = [product.extend tomatoes (cart_line.fields 101)]"
proof -
  have "\<forall>x\<in>set (cart initial_state). ident x \<noteq> ident tomatoes"
    by (simp add: initial_state_def)
  from add_again [OF this] show ?thesis
    by (simp add: addToCart_def initial_state_def tomatoes_fields js_add_def js_round_exact)
qed

lemma total_tomatoes:
  "totalINR [product.extend tomatoes (cart_line.fields n)] = js_add 0 (js_mul 89 n)"
  by (simp add: totalINR_def tomatoes_fields product.defs cart_line.defs)

text \<open>
  Claim C1, as the code has it. When the cart has no line for product \<open>p\<close>, adding
  \<open>p\<close> twice leaves exactly one line for \<open>p\<close>, never two: the first call appends the
  line with quantity \<open>max(1, p.moq || 1)\<close>, the second adds 1 to it, as doubles do. For
  an MOQ below \<open>2^53\<close> the line's quantity is \<open>max(1, p.moq) + 1\<close> exactly, and it is 2
  exactly when \<open>p.moq\<close> is at most 1. (At the MOQ \<open>2^53\<close> the sum rounds back to
  \<open>2^53\<close>.)
\<close>

theorem addToCart_twice_one_line:
  assumes "\<forall>x\<in>set (cart st). ident x \<noteq> ident p"
  shows "filter (\<lambda>x. ident x = ident p) (cart (addToCart p (addToCart p st)))
           = [product.extend p (cart_line.fields (js_add (max 1 (moq p)) 1))]
         \<and> (moq p < 2 ^ 53 \<longrightarrow> js_add (max 1 (moq p)) 1 = max 1 (moq p) + 1)
         \<and> (moq p < 2 ^ 53 \<longrightarrow> (js_add (max 1 (moq p)) 1 = 2 \<longleftrightarrow> moq p \<le> 1))
         \<and> js_add (max 1 (2 ^ 53)) 1 = 2 ^ 53"
proof -
  have "cart (addToCart p (addToCart p st))
          = cart st @ [product.extend p (cart_line.fields (js_add (max 1 (moq p)) 1))]"
    by (simp add: addToCart_def add_again [OF assms])
  moreover have "ident (product.extend p (cart_line.fields (js_add (max 1 (moq p)) 1))) = ident p"
    by (simp add: product.defs)
  ultimately have 1: "filter (\<lambda>x. ident x = ident p) (cart (addToCart p (addToCart p st)))
           = [product.extend p (cart_line.fields (js_add (max 1 (moq p)) 1))]"
    using filter_absent [OF assms] by simp
  have 2: "moq p < 2 ^ 53 \<longrightarrow> js_add (max 1 (moq p)) 1 = max 1 (moq p) + 1"
    by (simp add: js_add_one_exact)
  have 3: "moq p < 2 ^ 53 \<longrightarrow> (js_add (max 1 (moq p)) 1 = 2 \<longleftrightarrow> moq p \<le> 1)"
    by (auto simp: js_add_one_exact)
  have 4: "js_add (max 1 (2 ^ 53)) 1 = (2 ^ 53 :: int)"
    by code_simp
  from 1 2 3 4 show ?thesis by blast
qed

theorem addToCart_twice_one_line_witness:
  "map qty (filter (\<lambda>x. ident x = ''p2'')
      (cart (addToCart tomatoes (addToCart tomatoes initial_state)))) = [101]"
proof -
  have a: "\<forall>x\<in>set (cart initial_state). ident x \<noteq> ident tomatoes"
    by (simp add: initial_state_def)
  have b: "moq tomatoes < 2 ^ 53" by (simp add: tomatoes_fields)
  from addToCart_twice_one_line [OF a] b
  have "filter (\<lambda>x. ident x = ident tomatoes)
          (cart (addToCart tomatoes (addToCart tomatoes initial_state)))
        = [product.extend tomatoes (cart_line.fields (max 1 (moq tomatoes) + 1))]"
    by simp
  then show ?thesis
    by (simp add: tomatoes_fields product.defs cart_line.defs)
qed

text \<open>
  Claim C1 as stated fails: for the Organic Tomatoes product (MOQ 100) and the empty
  cart, the one line after two calls has quantity 101, not 2.
\<close>

theorem addToCart_twice_quantity_counterexample:
  "\<not> (map qty (filter (\<lambda>x. ident x = ident tomatoes)
          (cart (addToCart tomatoes (addToCart tomatoes initial_state)))) = [2])"
  by (simp add: cart_add_tomatoes_twice product.defs cart_line.defs)

text \<open>
  Claim C4, as the code has it. The cart total is computed in doubles from the lines'
  \<open>priceINR\<close> (the product's base price, copied into the line when it was added) and
  quantity. When the magnitudes of the lines' price times quantity add up to at most
  \<open>2^53\<close>, no step rounds and the total is the sum over the lines of price times
  quantity. In every cart the bulk tiers of the lines do not enter the total:
  replacing them by any others leaves it as it is. After \<open>addToCart(p)\<close> on an empty
  cart the cart is one line with quantity \<open>max(1, p.moq)\<close>, and the total is
  \<open>p.priceINR\<close> times that when this product is at most \<open>2^53\<close> in magnitude; for
  Organic Tomatoes this is quantity 100 and total 8900.
\<close>

theorem cart_total_base_price:
  "((\<Sum>it\<leftarrow>items. \<bar>priceINR it * qty it\<bar>) \<le> 2 ^ 53
      \<longrightarrow> totalINR items = (\<Sum>it\<leftarrow>items. priceINR it * qty it))
   \<and> totalINR (map (\<lambda>it. it\<lparr>bulkTiers := ts it\<rparr>) items) = totalINR items
   \<and> cart (addToCart p (st\<lparr>cart := []\<rparr>)) = [product.extend p (cart_line.fields (max 1 (moq p)))]
   \<and> (\<bar>priceINR p * max 1 (moq p)\<bar> \<le> 2 ^ 53
      \<longrightarrow> totalINR (cart (addToCart p (st\<lparr>cart := []\<rparr>))) = priceINR p * max 1 (moq p))
   \<and> map qty (cart (addToCart tomatoes initial_state)) = [100]
   \<and> totalINR (cart (addToCart tomatoes initial_state)) = 8900"
proof -
  have 1: "(\<Sum>it\<leftarrow>items. \<bar>priceINR it * qty it\<bar>) \<le> 2 ^ 53
      \<longrightarrow> totalINR items = (\<Sum>it\<leftarrow>items. priceINR it * qty it)"
    using totalINR_sum by blast
  have 2: "totalINR (map (\<lambda>it. it\<lparr>bulkTiers := ts it\<rparr>) items) = totalINR items"
    by (rule totalINR_tiers)
  have 3: "cart (addToCart p (st\<lparr>cart := []\<rparr>))
             = [product.extend p (cart_line.fields (max 1 (moq p)))]"
    by (simp add: addToCart_def add_new)
  have 4: "\<bar>priceINR p * max 1 (moq p)\<bar> \<le> 2 ^ 53
      \<longrightarrow> totalINR (cart (addToCart p (st\<lparr>cart := []\<rparr>))) = priceINR p * max 1 (moq p)"
  proof
    assume b: "\<bar>priceINR p * max 1 (moq p)\<bar> \<le> 2 ^ 53"
    define l where "l = product.extend p (cart_line.fields (max 1 (moq p)))"
    have f: "priceINR l = priceINR p" "qty l = max 1 (moq p)"
      by (simp_all add: l_def product.defs cart_line.defs)
    have "(\<Sum>it\<leftarrow>[l]. \<bar>priceINR it * qty it\<bar>) \<le> 2 ^ 53"
      using b by (simp add: f)
    from totalINR_sum [OF this] have "totalINR [l] = priceINR p * max 1 (moq p)"
      by (simp add: f)
    then show "totalINR (cart (addToCart p (st\<lparr>cart := []\<rparr>))) = priceINR p * max 1 (moq p)"
      unfolding 3 l_def .
  qed
  have 5: "map qty (cart (addToCart tomatoes initial_state)) = [100]"
    by (simp add: cart_add_tomatoes product.defs cart_line.defs)
  have 6: "totalINR (cart (addToCart tomatoes initial_state)) = 8900"
    unfolding cart_add_tomatoes total_tomatoes
    by (simp add: js_add_def js_mul_def js_round_exact)
  from 1 2 3 4 5 6 show ?thesis by blast
qed

theorem cart_total_base_price_witness:
  "(\<Sum>it\<leftarrow>cart (addToCart tomatoes (addToCart tomatoes initial_state)).
       \<bar>priceINR it * qty it\<bar>) = 8989
   \<and> totalINR (cart (addToCart tomatoes (addToCart tomatoes initial_state))) = 8989"
proof -
  define items where "items = cart (addToCart tomatoes (addToCart tomatoes initial_state))"
  have s: "(\<Sum>it\<leftarrow>items. \<bar>priceINR it * qty it\<bar>) = 8989"
    and t: "(\<Sum>it\<leftarrow>items. priceINR it * qty it) = 8989"
    unfolding items_def cart_add_tomatoes_twice
    by (simp_all add: tomatoes_fields product.defs cart_line.defs)
  have "(\<Sum>it\<leftarrow>items. \<bar>priceINR it * qty it\<bar>) \<le> 2 ^ 53"
    unfolding s by simp
  with cart_total_base_price [of items]
  have "totalINR items = (\<Sum>it\<leftarrow>items. priceINR it * qty it)" by blast
  then have r: "totalINR items = 8989" by (simp only: t)
  from s r show ?thesis unfolding items_def by blast
qed

text \<open>
  Claim C4 as stated fails where the doubles round. The farmer form accepts the price
  94906267 and the MOQ 94906267; adding the product saved from it to the empty cart
  gives one line of that price and quantity, whose price times quantity is
  9007199515875289, above \<open>2^53\<close>, and the total the code computes is the nearest
  double, 9007199515875288.
\<close>

theorem cart_total_rounding_counterexample:
  "totalINR (cart (addToCart
      (handleSubmit ''0.4fzyo82mvyr''
         \<lparr>form_name = ''Saffron'', form_priceINR = Some 94906267, form_stock = Some 0,
          form_moq = Some 94906267, form_category = ''Fruits'', form_image = [],
          form_farmerId = ''f1''\<rparr>)
      initial_state)) = 9007199515875288
   \<and> (\<Sum>it\<leftarrow>cart (addToCart
      (handleSubmit ''0.4fzyo82mvyr''
         \<lparr>form_name = ''Saffron'', form_priceINR = Some 94906267, form_stock = Some 0,
          form_moq = Some 94906267, form_category = ''Fruits'', form_image = [],
          form_farmerId = ''f1''\<rparr>)
      initial_state). priceINR it * qty it) = 9007199515875289"
  by code_simp

text \<open>
  Claim C5. \<open>checkout\<close> has no condition and no failing path: in every state, the
  empty cart included, it reports success with the total of the cart as it was before
  (the sum over its lines of price times quantity, when the magnitudes of these add
  up to at most \<open>2^53\<close>, so that no step of the total rounds), and leaves the cart
  empty, so that the total afterwards is 0, and the cart drawer closed; nothing else
  of the state changes. With Organic Tomatoes added once to the empty cart, it reports
  8900.
\<close>

theorem checkout_unconditional:
  "fst (checkout st) = CheckoutSuccessful (totalINR (cart st)) (currency st)
   \<and> ((\<Sum>it\<leftarrow>cart st. \<bar>priceINR it * qty it\<bar>) \<le> 2 ^ 53
      \<longrightarrow> fst (checkout st)
            = CheckoutSuccessful (\<Sum>it\<leftarrow>cart st. priceINR it * qty it) (currency st))
   \<and> cart (snd (checkout st)) = []
   \<and> totalINR (cart (snd (checkout st))) = 0
   \<and> cartOpen (snd (checkout st)) = False
   \<and> snd (checkout st) = st\<lparr>cart := [], cartOpen := False\<rparr>
   \<and> fst (checkout (st\<lparr>cart := []\<rparr>)) = CheckoutSuccessful 0 (currency st)
   \<and> fst (checkout (addToCart tomatoes initial_state)) = CheckoutSuccessful 8900 ''INR''"
proof -
  have 1: "fst (checkout st) = CheckoutSuccessful (totalINR (cart st)) (currency st)"
    by (simp add: checkout_def Let_def)
  have 2: "(\<Sum>it\<leftarrow>cart st. \<bar>priceINR it * qty it\<bar>) \<le> 2 ^ 53
      \<longrightarrow> fst (checkout st)
            = CheckoutSuccessful (\<Sum>it\<leftarrow>cart st. priceINR it * qty it) (currency st)"
    unfolding 1 using totalINR_sum [of "cart st"] by simp
  have 3: "snd (checkout st) = st\<lparr>cart := [], cartOpen := False\<rparr>"
    by (simp add: checkout_def Let_def)
  have 4: "cart (snd (checkout st)) = []" "cartOpen (snd (checkout st)) = False"
    unfolding 3 by simp_all
  have 5: "totalINR (cart (snd (checkout st))) = 0"
    unfolding 4 by (simp add: totalINR_def)
  have 6: "fst (checkout (st\<lparr>cart := []\<rparr>)) = CheckoutSuccessful 0 (currency st)"
    by (simp add: checkout_def Let_def totalINR_def)
  have "totalINR (cart (addToCart tomatoes initial_state)) = 8900"
    unfolding cart_add_tomatoes total_tomatoes
    by (simp add: js_add_def js_mul_def js_round_exact)
  moreover have "currency (addToCart tomatoes initial_state) = ''INR''"
    by (simp add: addToCart_def initial_state_def)
  ultimately have 7:
    "fst (checkout (addToCart tomatoes initial_state)) = CheckoutSuccessful 8900 ''INR''"
    by (simp add: checkout_def Let_def)
  from 1 2 3 4 5 6 7 show ?thesis by blast
qed

theorem checkout_unconditional_witness:
  "fst (checkout (addToCart tomatoes (addToCart tomatoes initial_state)))
     = CheckoutSuccessful 8989 ''INR''
   \<and> cart (snd (checkout (addToCart tomatoes (addToCart tomatoes initial_state)))) = []"
proof -
  define st where "st = addToCart tomatoes (addToCart tomatoes initial_state)"
  have c: "cart st = [product.extend tomatoes (cart_line.fields 101)]"
    unfolding st_def by (rule cart_add_tomatoes_twice)
  have s: "(\<Sum>it\<leftarrow>cart st. \<bar>priceINR it * qty it\<bar>) = 8989"
    and t: "(\<Sum>it\<leftarrow>cart st. priceINR it * qty it) = 8989"
    unfolding c by (simp_all add: tomatoes_fields product.defs cart_line.defs)
  have cur: "currency st = ''INR''"
    by (simp add: st_def addToCart_def initial_state_def)
  have "(\<Sum>it\<leftarrow>cart st. \<bar>priceINR it * qty it\<bar>) \<le> 2 ^ 53"
    unfolding s by simp
  with checkout_unconditional [of st]
  have "fst (checkout st)
          = CheckoutSuccessful (\<Sum>it\<leftarrow>cart st. priceINR it * qty it) (currency st)"
    and e: "cart (snd (checkout st)) = []"
    by blast+
  then have r: "fst (checkout st) = CheckoutSuccessful 8989 ''INR''"
    by (simp only: t cur)
  from r e show ?thesis unfolding st_def by blast
qed

lemma setQty_update_nth:
  "k < length prev \<Longrightarrow>
   setQty_update i n prev ! k = (if ident (prev ! k) = i then (prev ! k)\<lparr>qty := n\<rparr> else prev ! k)"
  unfolding setQty_update_def by (rule nth_map)

lemma setQty_update_hit:
  assumes "x \<in> set prev" and "ident x = i"
  shows "x\<lparr>qty := n\<rparr> \<in> set (setQty_update i n prev)"
proof -
  have "x\<lparr>qty := n\<rparr> = (\<lambda>x. if ident x = i then x\<lparr>qty := n\<rparr> else x) x"
    using assms(2) by simp
  then have "x\<lparr>qty := n\<rparr> \<in> (\<lambda>x. if ident x = i then x\<lparr>qty := n\<rparr> else x) ` set prev"
    using assms(1) by (rule image_eqI)
  then show ?thesis
    unfolding setQty_update_def set_map .
qed

lemma setQty_update_qty:
  assumes "y \<in> set (setQty_update i n prev)" and "ident y = i"
  shows "qty y = n"
proof -
  from assms(1) obtain x where y: "y = (if ident x = i then x\<lparr>qty := n\<rparr> else x)"
    unfolding setQty_update_def set_map by blast
  show ?thesis
  proof cases
    assume "ident x = i"
    with y show ?thesis by simp
  next
    assume "\<not> ident x = i"
    with y assms(2) show ?thesis by simp
  qed
qed

text \<open>
  Claim C9. \<open>setQty(id, qty)\<close> has no failing path and does not clamp: for every
  integer \<open>n\<close>, zero and the negative ones included, the cart keeps its length and its
  order, every line whose \<open>id\<close> is the given one becomes that line with quantity
  exactly \<open>n\<close>, and every other line stays as it is.
\<close>

theorem setQty_verbatim:
  "length (cart (setQty i n st)) = length (cart st)
   \<and> (\<forall>k < length (cart st).
        cart (setQty i n st) ! k
          = (if ident (cart st ! k) = i then (cart st ! k)\<lparr>qty := n\<rparr> else cart st ! k))
   \<and> (\<forall>x \<in> set (cart st). ident x = i \<longrightarrow> x\<lparr>qty := n\<rparr> \<in> set (cart (setQty i n st)))
   \<and> (\<forall>y \<in> set (cart (setQty i n st)). ident y = i \<longrightarrow> qty y = n)"
proof (intro conjI allI ballI impI)
  show "length (cart (setQty i n st)) = length (cart st)"
    by (simp add: setQty_def setQty_update_def)
next
  fix k assume "k < length (cart st)"
  then show "cart (setQty i n st) ! k
          = (if ident (cart st ! k) = i then (cart st ! k)\<lparr>qty := n\<rparr> else cart st ! k)"
    by (simp add: setQty_def setQty_update_nth)
next
  fix x assume "x \<in> set (cart st)" "ident x = i"
  then show "x\<lparr>qty := n\<rparr> \<in> set (cart (setQty i n st))"
    by (simp add: setQty_def setQty_update_hit)
next
  fix y assume "y \<in> set (cart (setQty i n st))" "ident y = i"
  then show "qty y = n"
    by (simp add: setQty_def setQty_update_qty)
qed

theorem setQty_verbatim_witness:
  "length (cart (setQty ''p2'' (- 3) (addToCart tomatoes initial_state))) = 1
   \<and> qty (cart (setQty ''p2'' (- 3) (addToCart tomatoes initial_state)) ! 0) = - 3
   \<and> qty (cart (setQty ''p2'' 0 (addToCart tomatoes initial_state)) ! 0) = 0"
  using setQty_verbatim [of "''p2''" "- 3" "addToCart tomatoes initial_state"]
    setQty_verbatim [of "''p2''" 0 "addToCart tomatoes initial_state"]
  unfolding cart_add_tomatoes
  by (simp add: tomatoes_fields product.defs)

section \<open>Properties of the listing pipeline\<close>

lemma insert_cmp_asc: "insert_cmp (\<lambda>a b. f a - f b) x ys = insort_key f x ys"
  by (induction ys) simp_all

lemma insert_cmp_desc: "insert_cmp (\<lambda>a b. f b - f a) x ys = insort_key (\<lambda>p. - f p) x ys"
  by (induction ys) simp_all

lemma array_sort_asc: "array_sort (\<lambda>a b. f a - f b) xs = sort_key f xs"
  by (induction xs) (simp_all add: array_sort_def insert_cmp_asc)

lemma array_sort_desc: "array_sort (\<lambda>a b. f b - f a) xs = sort_key (\<lambda>p. - f p) xs"
  by (induction xs) (simp_all add: array_sort_def insert_cmp_desc)

lemma sort_switch_cases:
  "sort_switch sortKey arr =
     (if sortKey = ''priceAsc'' then sort_key (\<lambda>p. rat_of_int (priceINR p)) arr
      else if sortKey = ''priceDesc'' then sort_key (\<lambda>p. - rat_of_int (priceINR p)) arr
      else if sortKey = ''ratingDesc'' then sort_key (\<lambda>p. - rating p) arr
      else arr)"
  by (simp add: sort_switch_def array_sort_asc array_sort_desc)


lemma set_sort_switch: "set (sort_switch sortKey arr) = set arr"
  by (simp add: sort_switch_cases)

lemma sort_switch_idem: "sort_switch sortKey (sort_switch sortKey arr) = sort_switch sortKey arr"
  by (simp add: sort_switch_cases sort_key_id_if_sorted)

lemma str_includes_sublist: "str_includes s t \<longleftrightarrow> sublist t s"
  by (induction s) (simp_all add: sublist_Cons_right)

lemma trim_empty: "trim q = [] \<longleftrightarrow> (\<forall>c\<in>set q. is_space c)"
proof -
  have mid: "dropWhile is_space (rev (dropWhile is_space q)) = [] \<longleftrightarrow> dropWhile is_space q = []"
  proof
    assume a: "dropWhile is_space (rev (dropWhile is_space q)) = []"
    show "dropWhile is_space q = []"
    proof (rule ccontr)
      assume n: "dropWhile is_space q \<noteq> []"
      then have "\<not> is_space (hd (dropWhile is_space q))" by (rule hd_dropWhile)
      moreover have "hd (dropWhile is_space q) \<in> set (rev (dropWhile is_space q))"
        using n by simp
      ultimately show False using a by (auto simp: dropWhile_eq_Nil_conv)
    qed
  next
    assume e: "dropWhile is_space q = []"
    show "dropWhile is_space (rev (dropWhile is_space q)) = []"
      unfolding e by simp
  qed
  have "trim q = [] \<longleftrightarrow> dropWhile is_space (rev (dropWhile is_space q)) = []"
    by (simp add: trim_def)
  also have "\<dots> \<longleftrightarrow> dropWhile is_space q = []" by (rule mid)
  also have "\<dots> \<longleftrightarrow> (\<forall>c\<in>set q. is_space c)" by (rule dropWhile_eq_Nil_conv)
  finally show ?thesis .
qed




lemma filtered_stages:
  "filtered prods q categ sortKey =
     sort_switch sortKey
       (filter (\<lambda>p. (trim q = [] \<or> str_includes (toLowerCase (name p)) (toLowerCase q))
                    \<and> (categ = ''All'' \<or> category p = categ)) prods)"
  by (simp add: filtered_def Let_def)

lemma filter_sort_switch:
  "filter P (sort_switch sortKey arr) = sort_switch sortKey (filter P arr)"
  by (simp add: sort_switch_cases filter_sort)











text \<open>
  Claim C8. Deriving the listing again from its own result, with the same query,
  category and sort key, gives that result back, as the same sequence.
\<close>

theorem filtered_idempotent:
  "filtered (filtered prods q categ sortKey) q categ sortKey = filtered prods q categ sortKey"
  by (simp add: filtered_stages filter_sort_switch sort_switch_idem)

text \<open>
  Claim C10. A query of white space only makes no name test: the listing is the one
  of the empty query. A query with a character that is not white space is matched
  whole, untrimmed: the listing is the one that the empty query gives on the products
  whose lower-cased name has the whole lower-cased query, its leading and trailing
  white space included, as a run of consecutive characters; so every product listed
  has it. With the initial catalog, the query \<open>alphonso\<close> lists the product whose
  name begins with \<open>Alphonso\<close>, and the query with a space before it lists nothing.
\<close>

theorem filtered_query_untrimmed:
  "((\<forall>c\<in>set q. is_space c)
      \<longrightarrow> filtered prods q categ sortKey = filtered prods [] categ sortKey)
   \<and> ((\<exists>c\<in>set q. \<not> is_space c)
      \<longrightarrow> filtered prods q categ sortKey
            = filtered (filter (\<lambda>p. sublist (toLowerCase q) (toLowerCase (name p))) prods)
                [] categ sortKey
          \<and> (\<forall>p\<in>set (filtered prods q categ sortKey).
                sublist (toLowerCase q) (toLowerCase (name p))))
   \<and> filtered initialProducts ''alphonso'' ''All'' ''relevance'' = [initialProducts ! 0]
   \<and> prefix ''Alphonso'' (name (initialProducts ! 0))
   \<and> filtered initialProducts '' alphonso'' ''All'' ''relevance'' = []"
proof (intro conjI impI)
  assume "\<forall>c\<in>set q. is_space c"
  then have "trim q = []" by (simp only: trim_empty)
  moreover have "trim [] = []" by (simp add: trim_def)
  ultimately show "filtered prods q categ sortKey = filtered prods [] categ sortKey"
    by (simp add: filtered_stages)
next
  assume "\<exists>c\<in>set q. \<not> is_space c"
  then have n: "trim q \<noteq> []" by (simp only: trim_empty) blast
  have e: "trim [] = []" by (simp add: trim_def)
  show "filtered prods q categ sortKey
          = filtered (filter (\<lambda>p. sublist (toLowerCase q) (toLowerCase (name p))) prods)
              [] categ sortKey"
    using n e by (simp add: filtered_stages str_includes_sublist conj_commute)
  show "\<forall>p\<in>set (filtered prods q categ sortKey).
          sublist (toLowerCase q) (toLowerCase (name p))"
    using n by (simp add: filtered_stages str_includes_sublist set_sort_switch)
next
  show "filtered initialProducts ''alphonso'' ''All'' ''relevance'' = [initialProducts ! 0]"
    by code_simp
  show "prefix ''Alphonso'' (name (initialProducts ! 0))"
    by code_simp
  show "filtered initialProducts '' alphonso'' ''All'' ''relevance'' = []"
    by code_simp
qed

theorem filtered_query_untrimmed_witness:
  "filtered initialProducts ''  '' ''Dairy'' ''priceAsc''
     = filtered initialProducts [] ''Dairy'' ''priceAsc''
   \<and> filtered initialProducts '' milk'' ''All'' ''relevance''
     = filtered (filter (\<lambda>p. sublist (toLowerCase '' milk'') (toLowerCase (name p)))
         initialProducts) [] ''All'' ''relevance''
   \<and> filtered initialProducts '' milk'' ''All'' ''relevance'' = [initialProducts ! 2]"
proof -
  have a: "\<forall>c\<in>set ''  ''. is_space c" by (simp add: is_space_def)
  have b: "\<exists>c\<in>set '' milk''. \<not> is_space c" by (simp add: is_space_def)
  have c: "filtered initialProducts '' milk'' ''All'' ''relevance'' = [initialProducts ! 2]"
    by code_simp
  from filtered_query_untrimmed [of "''  ''" initialProducts "''Dairy''" "''priceAsc''"] a
  have 1: "filtered initialProducts ''  '' ''Dairy'' ''priceAsc''
     = filtered initialProducts [] ''Dairy'' ''priceAsc''" by blast
  from filtered_query_untrimmed [of "'' milk''" initialProducts "''All''" "''relevance''"] b
  have 2: "filtered initialProducts '' milk'' ''All'' ''relevance''
     = filtered (filter (\<lambda>p. sublist (toLowerCase '' milk'') (toLowerCase (name p)))
         initialProducts) [] ''All'' ''relevance''" by blast
  from 1 2 c show ?thesis by blast
qed

section \<open>Properties of the catalog\<close>

lemma initial_tiers_ok: "\<forall>p\<in>set initialProducts. tier_schedule_ok p"
  by (simp add: initialProducts_def tier_schedule_ok_def)

lemma handleSubmit_tiers_iff:
  "tier_schedule_ok (handleSubmit rnd f) \<longleftrightarrow> 1 \<le> number_or (form_priceINR f) 0"
proof -
  have "tier_schedule_ok (handleSubmit rnd f)
      \<longleftrightarrow> max 1 ((number_or (form_priceINR f) 1 * 95) div 100) \<le> number_or (form_priceINR f) 0"
    by (simp add: tier_schedule_ok_def handleSubmit_def)
  also have "\<dots> \<longleftrightarrow> 1 \<le> number_or (form_priceINR f) 0"
    by (auto simp: number_or_def split: option.splits)
  finally show ?thesis .
qed

lemma products_submit_forms:
  "products (submit_forms subs st)
     = rev (map (\<lambda>(rnd, f). handleSubmit rnd f) subs) @ products st"
  by (induction subs st rule: submit_forms.induct) (simp_all add: saveProduct_def)

text \<open>
  Claim C3, as the code has it. The catalog after any number of farmer-form
  submissions is the products built by \<open>handleSubmit\<close>, newest first, before the five
  initial products. Each of the five initial products satisfies the tier-schedule
  invariant. A product built by the form satisfies it exactly when its base price
  \<open>Number(form.priceINR) || 0\<close> is at least 1 (its one tier has the price
  \<open>max(1, floor(0.95 * (Number(form.priceINR) || 1)))\<close>, which is never below 1). So
  every product of the catalog satisfies the invariant when every submitted form had a
  price of at least 1.
\<close>

theorem catalog_tiers:
  "products (submit_forms subs initial_state)
     = rev (map (\<lambda>(rnd, f). handleSubmit rnd f) subs) @ initialProducts
   \<and> (\<forall>p\<in>set initialProducts. tier_schedule_ok p)
   \<and> (tier_schedule_ok (handleSubmit rnd f) \<longleftrightarrow> 1 \<le> number_or (form_priceINR f) 0)
   \<and> ((\<forall>(rnd, f)\<in>set subs. 1 \<le> number_or (form_priceINR f) 0)
        \<longrightarrow> (\<forall>p\<in>set (products (submit_forms subs initial_state)). tier_schedule_ok p))"
proof (intro conjI impI)
  show c: "products (submit_forms subs initial_state)
     = rev (map (\<lambda>(rnd, f). handleSubmit rnd f) subs) @ initialProducts"
    by (simp add: products_submit_forms initial_state_def)
  show "\<forall>p\<in>set initialProducts. tier_schedule_ok p" by (rule initial_tiers_ok)
  show "tier_schedule_ok (handleSubmit rnd f) \<longleftrightarrow> 1 \<le> number_or (form_priceINR f) 0"
    by (rule handleSubmit_tiers_iff)
  assume a: "\<forall>(rnd, f)\<in>set subs. 1 \<le> number_or (form_priceINR f) 0"
  show "\<forall>p\<in>set (products (submit_forms subs initial_state)). tier_schedule_ok p"
  proof
    fix p assume "p \<in> set (products (submit_forms subs initial_state))"
    then consider "p \<in> set initialProducts"
      | rnd f where "(rnd, f) \<in> set subs" "p = handleSubmit rnd f"
      unfolding c by auto
    then show "tier_schedule_ok p"
    proof cases
      case 1
      then show ?thesis using initial_tiers_ok by blast
    next
      case 2
      then have "1 \<le> number_or (form_priceINR f) 0" using a by blast
      then show ?thesis unfolding 2(2) by (simp only: handleSubmit_tiers_iff)
    qed
  qed
qed

theorem catalog_tiers_witness:
  "bulkTiers (hd (products (submit_forms
       [(''0.4fzyo82mvyr'',
         \<lparr>form_name = ''Carrots'', form_priceINR = Some 40, form_stock = Some 500,
          form_moq = Some 10, form_category = ''Vegetables'', form_image = [],
          form_farmerId = ''f1''\<rparr>)]
       initial_state)))
     = [\<lparr>tier_min = 10, tier_priceINR = 38\<rparr>]
   \<and> tier_schedule_ok (hd (products (submit_forms
       [(''0.4fzyo82mvyr'',
         \<lparr>form_name = ''Carrots'', form_priceINR = Some 40, form_stock = Some 500,
          form_moq = Some 10, form_category = ''Vegetables'', form_image = [],
          form_farmerId = ''f1''\<rparr>)]
       initial_state)))"
proof -
  define f where
    "f = \<lparr>form_name = ''Carrots'', form_priceINR = Some 40, form_stock = Some 500,
          form_moq = Some 10, form_category = ''Vegetables'', form_image = [],
          form_farmerId = ''f1''\<rparr>"
  define subs where "subs = [(''0.4fzyo82mvyr'', f)]"
  have a: "\<forall>(rnd, f)\<in>set subs. 1 \<le> number_or (form_priceINR f) 0"
    by (simp add: subs_def f_def number_or_def)
  from catalog_tiers [of subs] a
  have c: "products (submit_forms subs initial_state)
             = rev (map (\<lambda>(rnd, f). handleSubmit rnd f) subs) @ initialProducts"
    and ok: "\<forall>p\<in>set (products (submit_forms subs initial_state)). tier_schedule_ok p"
    by blast+
  have h: "hd (products (submit_forms subs initial_state)) = handleSubmit ''0.4fzyo82mvyr'' f"
    unfolding c by (simp add: subs_def)
  have "handleSubmit ''0.4fzyo82mvyr'' f \<in> set (products (submit_forms subs initial_state))"
    unfolding c by (simp add: subs_def)
  with ok have 1: "tier_schedule_ok (hd (products (submit_forms subs initial_state)))"
    unfolding h by blast
  have 2: "bulkTiers (hd (products (submit_forms subs initial_state)))
             = [\<lparr>tier_min = 10, tier_priceINR = 38\<rparr>]"
    unfolding h by (simp add: handleSubmit_def f_def number_or_def)
  from 1 2 show ?thesis unfolding subs_def f_def by blast
qed

text \<open>
  Claim C3 as stated fails: the form accepts the price 0 (its input has \<open>min = 0\<close>),
  and the product saved then has base price 0 and one tier of price 1, above the base
  price.
\<close>

theorem catalog_tiers_counterexample:
  "\<not> (\<forall>p\<in>set (products (submit_forms
         [(''0.4fzyo82mvyr'',
           \<lparr>form_name = ''Carrots'', form_priceINR = Some 0, form_stock = Some 500,
          form_moq = Some 10, form_category = ''Vegetables'', form_image = [],
          form_farmerId = ''f1''\<rparr>)]
         initial_state)). tier_schedule_ok p)"
proof -
  have "\<not> tier_schedule_ok (handleSubmit ''0.4fzyo82mvyr''
         \<lparr>form_name = ''Carrots'', form_priceINR = Some 0, form_stock = Some 500,
          form_moq = Some 10, form_category = ''Vegetables'', form_image = [],
          form_farmerId = ''f1''\<rparr>)"
    by (simp add: tier_schedule_ok_def handleSubmit_def number_or_def)
  then show ?thesis
    by (simp add: saveProduct_def)
qed

section \<open>Properties of the RFQ list\<close>

lemma rfqs_submit_rfqs:
  "rfqs (submit_rfqs subs st)
     = rev (map (\<lambda>(rnd, now, data). rfq_data.extend data (rfq.fields (slice2 rnd) now)) subs)
       @ rfqs st"
  by (induction subs st rule: submit_rfqs.induct) (simp_all add: submitRFQ_def)

lemma rfq_id_extend: "rfq_id (rfq_data.extend data (rfq.fields i d)) = i"
  by (simp add: rfq_data.defs rfq.defs)

text \<open>
  Claim C7, as the code has it. Starting from an empty RFQ list, after N calls of
  \<open>submitRFQ\<close> the list has exactly N requests, the most recent first: each call
  puts its request at the head. The identifier of a request is the text of the random
  draw (\<open>Math.random().toString(36)\<close>) without its first two characters; nothing
  compares it with the identifiers already in the list. So the N identifiers are
  pairwise distinct exactly when those N texts are.
\<close>

theorem rfq_list_after_submissions:
  assumes "rfqs st = []"
  shows "length (rfqs (submit_rfqs subs st)) = length subs
    \<and> rfqs (submit_rfqs subs st)
        = rev (map (\<lambda>(rnd, now, data). rfq_data.extend data (rfq.fields (slice2 rnd) now)) subs)
    \<and> rfqs (submit_rfqs (subs @ [(rnd, now, data)]) st)
        = rfq_data.extend data (rfq.fields (slice2 rnd) now) # rfqs (submit_rfqs subs st)
    \<and> (distinct (map rfq_id (rfqs (submit_rfqs subs st)))
        \<longleftrightarrow> distinct (map (\<lambda>(rnd, now, data). slice2 rnd) subs))"
proof -
  have ids: "map rfq_id (rfqs (submit_rfqs subs st))
               = rev (map (\<lambda>(rnd, now, data). slice2 rnd) subs)"
    by (simp add: rfqs_submit_rfqs assms rev_map comp_def case_prod_beta rfq_id_extend)
  have 4: "distinct (map rfq_id (rfqs (submit_rfqs subs st)))
        \<longleftrightarrow> distinct (map (\<lambda>(rnd, now, data). slice2 rnd) subs)"
    unfolding ids by (rule distinct_rev)
  have 1: "length (rfqs (submit_rfqs subs st)) = length subs"
    by (simp add: rfqs_submit_rfqs assms)
  have 2: "rfqs (submit_rfqs subs st)
        = rev (map (\<lambda>(rnd, now, data). rfq_data.extend data (rfq.fields (slice2 rnd) now)) subs)"
    by (simp add: rfqs_submit_rfqs assms)
  have 3: "rfqs (submit_rfqs (subs @ [(rnd, now, data)]) st)
        = rfq_data.extend data (rfq.fields (slice2 rnd) now) # rfqs (submit_rfqs subs st)"
    by (simp add: rfqs_submit_rfqs)
  from 1 2 3 4 show ?thesis by blast
qed

theorem rfq_list_after_submissions_witness:
  "map rfq_id (rfqs (submit_rfqs
      [(''0.i'', ''2026-01-05T10:00:00.000Z'',
        \<lparr>rfq_productId = ''p2'', rfq_qty = 100, rfq_location = ''Pune'', rfq_target = [],
         rfq_notes = []\<rparr>),
       (''0.9'', ''2026-01-05T10:05:00.000Z'',
        \<lparr>rfq_productId = ''p3'', rfq_qty = 200, rfq_location = ''Nashik'', rfq_target = ''70'',
         rfq_notes = []\<rparr>)]
      initial_state)) = [''9'', ''i'']
   \<and> map rfq_productId (rfqs (submit_rfqs
      [(''0.i'', ''2026-01-05T10:00:00.000Z'',
        \<lparr>rfq_productId = ''p2'', rfq_qty = 100, rfq_location = ''Pune'', rfq_target = [],
         rfq_notes = []\<rparr>),
       (''0.9'', ''2026-01-05T10:05:00.000Z'',
        \<lparr>rfq_productId = ''p3'', rfq_qty = 200, rfq_location = ''Nashik'', rfq_target = ''70'',
         rfq_notes = []\<rparr>)]
      initial_state)) = [''p3'', ''p2'']"
proof -
  define subs where "subs =
      [(''0.i'', ''2026-01-05T10:00:00.000Z'',
        \<lparr>rfq_productId = ''p2'', rfq_qty = 100, rfq_location = ''Pune'', rfq_target = [],
         rfq_notes = []\<rparr>),
       (''0.9'', ''2026-01-05T10:05:00.000Z'',
        \<lparr>rfq_productId = ''p3'', rfq_qty = 200, rfq_location = ''Nashik'', rfq_target = ''70'',
         rfq_notes = []\<rparr>)]"
  have a: "rfqs initial_state = []" by (simp add: initial_state_def)
  from rfq_list_after_submissions [OF a, of subs]
  have r: "rfqs (submit_rfqs subs initial_state)
        = rev (map (\<lambda>(rnd, now, data). rfq_data.extend data (rfq.fields (slice2 rnd) now)) subs)"
    by blast
  have 1: "map rfq_id (rfqs (submit_rfqs subs initial_state)) = [''9'', ''i'']"
    unfolding r by (simp add: subs_def slice2_def rfq_data.defs rfq.defs)
  have 2: "map rfq_productId (rfqs (submit_rfqs subs initial_state)) = [''p3'', ''p2'']"
    unfolding r by (simp add: subs_def slice2_def rfq_data.defs rfq.defs)
  from 1 2 show ?thesis unfolding subs_def by blast
qed

text \<open>
  Claim C7 as stated fails on the identifiers: when \<open>Math.random()\<close> yields the same
  value for two submissions (0.5, whose base-36 text is \<open>0.i\<close>), both requests get
  the identifier \<open>i\<close>.
\<close>

theorem rfq_ids_counterexample:
  "\<not> distinct (map rfq_id (rfqs (submit_rfqs
      [(''0.i'', ''2026-01-05T10:00:00.000Z'',
        \<lparr>rfq_productId = ''p2'', rfq_qty = 100, rfq_location = ''Pune'', rfq_target = [],
         rfq_notes = []\<rparr>),
       (''0.i'', ''2026-01-05T10:05:00.000Z'',
        \<lparr>rfq_productId = ''p3'', rfq_qty = 200, rfq_location = ''Nashik'', rfq_target = ''70'',
         rfq_notes = []\<rparr>)]
      initial_state)))"
  by (simp add: submitRFQ_def initial_state_def slice2_def rfq_data.defs rfq.defs)

section \<open>Properties of the pricing engine\<close>

lemma scan_tiers_spec:
  "(scan_tiers q best ts = None \<longleftrightarrow> best = None \<and> (\<forall>t\<in>set ts. q < tier_min t))
   \<and> (\<forall>r. scan_tiers q best ts = Some r \<longrightarrow>
         (r \<in> set ts \<and> tier_min r \<le> q \<or> best = Some r)
         \<and> (\<forall>u\<in>set ts. tier_min u \<le> q \<longrightarrow> tier_min u \<le> tier_min r)
         \<and> (\<forall>b. best = Some b \<longrightarrow> tier_min b \<le> tier_min r))"
proof (induction ts arbitrary: best)
  case Nil
  then show ?case by simp
next
  case (Cons t ts)
  show ?case
    using Cons.IH [of "Some t"] Cons.IH [of best]
    by (auto split: option.splits)
qed

text \<open>
  Claim C2, on the function modelled from the spec. When the quantity is below every
  tier's threshold, \<open>unitPriceFor\<close> returns the base price. When some tier's
  threshold is not above the quantity, it returns the unit price of a tier of the
  product whose threshold is not above the quantity and is the greatest such
  threshold. For Organic Tomatoes (base price 89, tiers (100, 84), (500, 80),
  (2500, 76), as in the mock catalog) it returns 84 at quantity 300 and 89 at
  quantity 50.
\<close>

theorem unitPriceFor_greatest_tier:
  "((\<forall>t\<in>set (bulkTiers p). quantity < tier_min t) \<longrightarrow> unitPriceFor p quantity = priceINR p)
   \<and> ((\<exists>t\<in>set (bulkTiers p). tier_min t \<le> quantity) \<longrightarrow>
        (\<exists>t\<in>set (bulkTiers p). tier_min t \<le> quantity
           \<and> (\<forall>u\<in>set (bulkTiers p). tier_min u \<le> quantity \<longrightarrow> tier_min u \<le> tier_min t)
           \<and> unitPriceFor p quantity = tier_priceINR t))
   \<and> unitPriceFor tomatoes 300 = 84
   \<and> unitPriceFor tomatoes 50 = 89"
proof (intro conjI impI)
  assume "\<forall>t\<in>set (bulkTiers p). quantity < tier_min t"
  then have "scan_tiers quantity None (bulkTiers p) = None"
    using scan_tiers_spec [of quantity None "bulkTiers p"] by blast
  then show "unitPriceFor p quantity = priceINR p"
    by (simp add: unitPriceFor_def)
next
  assume "\<exists>t\<in>set (bulkTiers p). tier_min t \<le> quantity"
  then have "scan_tiers quantity None (bulkTiers p) \<noteq> None"
    using scan_tiers_spec [of quantity None "bulkTiers p"] by force
  then obtain r where r: "scan_tiers quantity None (bulkTiers p) = Some r" by blast
  with scan_tiers_spec [of quantity None "bulkTiers p"]
  have "r \<in> set (bulkTiers p)" "tier_min r \<le> quantity"
    "\<forall>u\<in>set (bulkTiers p). tier_min u \<le> quantity \<longrightarrow> tier_min u \<le> tier_min r"
    by simp_all
  moreover have "unitPriceFor p quantity = tier_priceINR r"
    by (simp add: unitPriceFor_def r)
  ultimately show "\<exists>t\<in>set (bulkTiers p). tier_min t \<le> quantity
           \<and> (\<forall>u\<in>set (bulkTiers p). tier_min u \<le> quantity \<longrightarrow> tier_min u \<le> tier_min t)
           \<and> unitPriceFor p quantity = tier_priceINR t"
    by blast
next
  show "unitPriceFor tomatoes 300 = 84"
    by (simp add: unitPriceFor_def tomatoes_eq)
  show "unitPriceFor tomatoes 50 = 89"
    by (simp add: unitPriceFor_def tomatoes_eq)
qed

theorem unitPriceFor_greatest_tier_witness:
  "unitPriceFor tomatoes 99 = priceINR tomatoes
   \<and> unitPriceFor tomatoes 2500 = 76"
proof -
  have low: "\<forall>t\<in>set (bulkTiers tomatoes). 99 < tier_min t"
    by (simp add: tomatoes_eq)
  with unitPriceFor_greatest_tier [of tomatoes 99]
  have 1: "unitPriceFor tomatoes 99 = priceINR tomatoes" by blast
  have "\<exists>t\<in>set (bulkTiers tomatoes). tier_min t \<le> 2500"
    by (simp add: tomatoes_eq)
  with unitPriceFor_greatest_tier [of tomatoes 2500]
  obtain t where t: "t \<in> set (bulkTiers tomatoes)" "tier_min t \<le> 2500"
    "\<forall>u\<in>set (bulkTiers tomatoes). tier_min u \<le> 2500 \<longrightarrow> tier_min u \<le> tier_min t"
    "unitPriceFor tomatoes 2500 = tier_priceINR t"
    by blast
  from t(3) have "2500 \<le> tier_min t" by (simp add: tomatoes_eq)
  with t(1) have "tier_priceINR t = 76" by (auto simp: tomatoes_eq)
  with t(4) have 2: "unitPriceFor tomatoes 2500 = 76" by simp
  from 1 2 show ?thesis by blast
qed

end
